theory Spec2Isabelle
  imports Complex_Main "HOL-Library.Multiset"
begin

section \<open>Temporal alignment of raster collections\<close>

text \<open>
  The notebook \<^verbatim>\<open>notebooks/sentinel/sentinel_spaceeye.ipynb\<close> handles the rasters a
  workflow run returns as objects with a \<^verbatim>\<open>time_range\<close> (a pair of datetimes), a
  \<^verbatim>\<open>tile_id\<close> and a \<^verbatim>\<open>raster_asset.url\<close>. A Python \<^verbatim>\<open>datetime\<close> has microsecond
  resolution, the difference of two of them is a \<^verbatim>\<open>timedelta\<close> (an exact number of
  microseconds) and \<^verbatim>\<open>abs\<close> of a \<^verbatim>\<open>timedelta\<close> is its magnitude: instants and
  durations are integers, counted in microseconds.
\<close>

type_synonym datetime = int

record raster =
  url :: string
  tile_id :: string
  time_range :: "datetime \<times> datetime"

text \<open>
  \<^verbatim>\<open>sorted(iterable, key=f)\<close> returns a new list, ordered by \<^verbatim>\<open>f\<close>, and is
  guaranteed stable. The stable ordering of a list by a key is unique, so the
  insertion sort \<^const>\<open>sort_key\<close> computes the list Python computes.
\<close>

definition py_sorted :: "('a \<Rightarrow> 'k::linorder) \<Rightarrow> 'a list \<Rightarrow> 'a list" where
  "py_sorted key xs = sort_key key xs"

text \<open>
  \<^verbatim>\<open>s1_rasters = sorted(s1_run.output["s1_raster"], key=lambda x: x.time_range[0])\<close>
  (the same expression orders \<^verbatim>\<open>s2_rasters\<close>): the spec's \<^verbatim>\<open>sort_by_time\<close>.
\<close>

definition s1_rasters :: "raster list \<Rightarrow> raster list" where
  "s1_rasters output = py_sorted (\<lambda>x. fst (time_range x)) output"

text \<open>
  Indexing an empty list raises Python's built-in \<^verbatim>\<open>IndexError\<close>; it is the only
  exception the expressions modelled here raise. The notebook defines no
  exception of its own: \<open>EmptyCollection\<close>, the error the spec's taxonomy names
  for temporal alignment against zero candidates, is a second, different
  failure a caller could be told of, and no expression of the notebook raises it.
\<close>

datatype py_error = IndexError | EmptyCollection

text \<open>
  \<^verbatim>\<open>se_raster = sorted(se_run.output["raster"],
       key=lambda x: abs(s2.time_range[0] - x.time_range[0]))[0]\<close>
  with \<open>t\<close> the reference time \<^verbatim>\<open>s2.time_range[0]\<close>: the spec's \<^verbatim>\<open>nearest\<close>.
\<close>

definition se_raster :: "datetime \<Rightarrow> raster list \<Rightarrow> py_error + raster" where
  "se_raster t output =
     (case py_sorted (\<lambda>x. \<bar>t - fst (time_range x)\<bar>) output of
        [] \<Rightarrow> Inl IndexError
      | r # _ \<Rightarrow> Inr r)"

section \<open>Cloud cover\<close>

text \<open>
  \<^verbatim>\<open>cloud_ratio = [read_raster(c, geom, filled=False)[0].mean()
                   for c in tqdm(run2.output["mask"])]\<close>
  The means are numpy floats, computed by numpy; they enter the two selections
  below as given values. A numpy float is \<^verbatim>\<open>nan\<close> (the mean of no value) or a
  finite double, which is a rational number. The comparison of two doubles
  involves no rounding: it is the order of the numbers, and \<^verbatim>\<open>nan\<close> compares
  false with everything.
\<close>

datatype np_float = NaN | Fin rat

text \<open>The comparisons \<^verbatim>\<open>c < cloud_thr\<close> and \<^verbatim>\<open>c >= cloud_thr\<close> of a numpy float with a number.\<close>

fun np_lt :: "np_float \<Rightarrow> rat \<Rightarrow> bool" where
  "np_lt NaN thr = False"
| "np_lt (Fin c) thr = (c < thr)"

fun np_ge :: "np_float \<Rightarrow> rat \<Rightarrow> bool" where
  "np_ge NaN thr = False"
| "np_ge (Fin c) thr = (c \<ge> thr)"

text \<open>
  \<^verbatim>\<open>cloud_free_rasters = [s2 for s2, c in zip(run.output["raster"], cloud_ratio) if c < cloud_thr]\<close>
  \<^verbatim>\<open>cloudy_rasters = [s2 for s2, c in zip(run.output["raster"], cloud_ratio) if c >= cloud_thr]\<close>
  A raster the spec calls usable is one the first list keeps, an unusable one is
  one the second list keeps.
\<close>

definition cloud_free_rasters :: "'r list \<Rightarrow> np_float list \<Rightarrow> rat \<Rightarrow> 'r list" where
  "cloud_free_rasters rasters cloud_ratio cloud_thr =
     [s2. (s2, c) \<leftarrow> zip rasters cloud_ratio, np_lt c cloud_thr]"

definition cloudy_rasters :: "'r list \<Rightarrow> np_float list \<Rightarrow> rat \<Rightarrow> 'r list" where
  "cloudy_rasters rasters cloud_ratio cloud_thr =
     [s2. (s2, c) \<leftarrow> zip rasters cloud_ratio, np_ge c cloud_thr]"

section \<open>Window resolver and windowed reader\<close>

text \<open>
  The notebook obtains its pixel windows from \<^verbatim>\<open>geometry_window\<close>, imported from
  \<^verbatim>\<open>rasterio.mask\<close>, and its arrays from \<^verbatim>\<open>read_raster\<close>, imported from
  \<^verbatim>\<open>vibe_notebook.raster\<close>; it calls both and holds the body of neither. The
  definitions of this section follow the contracts the spec gives for the two
  operations (sections 3, 4.2, 4.3 and 7), sentence by sentence. Coordinates are
  exact rational numbers.
\<close>

type_synonym point = "rat \<times> rat"

text \<open>
  Modelled from the spec: the ``array[band, row, col]'' of section 4.3, a list of
  bands, each a list of rows; the array type (numpy's) is not in the notebook.
\<close>

type_synonym ndarray = "rat list list list"

text \<open>
  Modelled from the spec: the Geometry of the data model, ``a polygon/point/box'' in
  the raster's CRS; the geometry type (shapely's) is not in the notebook. A
  polygon is its first vertex and the remaining ones, so that every geometry
  has a vertex.
\<close>

datatype geometry = Point point | Box point point | Polygon point "point list"

text \<open>
  Modelled from the spec: the vertices of a geometry, the first one apart; the
  accessors of the geometry type are not in the notebook.
\<close>

fun vertices :: "geometry \<Rightarrow> point \<times> point list" where
  "vertices (Point p) = (p, [])"
| "vertices (Box (x0, y0) (x1, y1)) = ((x0, y0), [(x1, y0), (x1, y1), (x0, y1)])"
| "vertices (Polygon p ps) = (p, ps)"

text \<open>
  Modelled from the spec: the ``bounding envelope in CRS units'' of section 4.2, as
  the bounds the notebook reads with \<^verbatim>\<open>xmin, ymin, xmax, ymax = proj_geom.bounds\<close>;
  the type of the bounds is not in the notebook.
\<close>

record bbox =
  xmin :: rat
  ymin :: rat
  xmax :: rat
  ymax :: rat

text \<open>
  Modelled from the spec: ``computes the geometry's bounding envelope in CRS
  units''; the envelope computation is not in the notebook.
\<close>

definition envelope :: "geometry \<Rightarrow> bbox" where
  "envelope g =
     (case vertices g of (p, ps) \<Rightarrow>
        \<lparr>xmin = fold min (map fst ps) (fst p), ymin = fold min (map snd ps) (snd p),
         xmax = fold max (map fst ps) (fst p), ymax = fold max (map snd ps) (snd p)\<rparr>)"

text \<open>
  Modelled from the spec: the raster's ``pixel-to-CRS affine transform'' of the data
  model; the transform type (rasterio's) is not in the notebook. Pixel
  coordinates (column, row) go to \<open>x = x_col * col + x_row * row + x_off\<close> and
  \<open>y = y_col * col + y_row * row + y_off\<close>.
\<close>

record affine =
  x_col :: rat
  x_row :: rat
  x_off :: rat
  y_col :: rat
  y_row :: rat
  y_off :: rat

text \<open>
  Modelled from the spec: the application of an affine transform to a pair of
  coordinates, ``the linear mapping between pixel row/column indices and CRS
  coordinates'' of the glossary; not in the notebook.
\<close>

definition apply_affine :: "affine \<Rightarrow> rat \<times> rat \<Rightarrow> rat \<times> rat" where
  "apply_affine t p =
     (x_col t * fst p + x_row t * snd p + x_off t, y_col t * fst p + y_row t * snd p + y_off t)"

text \<open>
  Modelled from the spec: the determinant of the linear part, by which ``the inverse
  affine transform'' of section 4.2 divides; not in the notebook.
\<close>

definition det :: "affine \<Rightarrow> rat" where
  "det t = x_col t * y_row t - x_row t * y_col t"

text \<open>
  Modelled from the spec: ``the inverse affine transform'' of section 4.2, from CRS
  coordinates to fractional pixel coordinates; not in the notebook. It inverts
  the transform when the determinant is not zero (lemma
  \<open>inverse_affine_undoes\<close>).
\<close>

definition inverse_affine :: "affine \<Rightarrow> affine" where
  "inverse_affine t =
     \<lparr>x_col = y_row t / det t,
      x_row = - x_row t / det t,
      x_off = (x_row t * y_off t - y_row t * x_off t) / det t,
      y_col = - y_col t / det t,
      y_row = x_col t / det t,
      y_off = (y_col t * x_off t - x_col t * y_off t) / det t\<rparr>"

text \<open>
  Modelled from the spec: the \<^verbatim>\<open>raster_size\<close> argument of \<^verbatim>\<open>resolve_window\<close>, the
  ``dimensions'' of a Raster Reference; the raster type is not in the notebook.
\<close>

record raster_size =
  height :: nat
  width :: nat

text \<open>
  Modelled from the spec: the ``fractional pixel coordinates'' of an envelope, its
  lower and upper bound in columns and in rows; not in the notebook.
\<close>

record pixel_extent =
  col_lo :: rat
  row_lo :: rat
  col_hi :: rat
  row_hi :: rat

text \<open>
  Modelled from the spec: the Pixel Window of the data model, ``an axis-aligned
  integer rectangle (row-start, row-stop, col-start, col-stop)''; the window type
  (rasterio's) is not in the notebook.
\<close>

record pixel_window =
  row_start :: int
  row_stop :: int
  col_start :: int
  col_stop :: int

text \<open>
  Modelled from the spec: the four corners of an envelope, which section 4.2 ``maps
  through the inverse affine transform''; not in the notebook.
\<close>

definition corners :: "bbox \<Rightarrow> point list" where
  "corners env =
     [(xmin env, ymin env), (xmin env, ymax env), (xmax env, ymin env), (xmax env, ymax env)]"

text \<open>
  Modelled from the spec: ``maps it through the inverse affine transform to
  fractional pixel coordinates''; not in the notebook. The extent is the least
  and the greatest column and row among the images of the four corners.
\<close>

definition to_pixel_extent :: "affine \<Rightarrow> bbox \<Rightarrow> pixel_extent" where
  "to_pixel_extent t env =
     (let px = map (apply_affine (inverse_affine t)) (corners env)
      in \<lparr>col_lo = fold min (map fst (tl px)) (fst (hd px)),
          row_lo = fold min (map snd (tl px)) (snd (hd px)),
          col_hi = fold max (map fst (tl px)) (fst (hd px)),
          row_hi = fold max (map snd (tl px)) (snd (hd px))\<rparr>)"

text \<open>
  Modelled from the spec: ``rounds outward (floor on the lower bound, ceil on the
  upper bound)''; not in the notebook.
\<close>

definition round_outward :: "pixel_extent \<Rightarrow> pixel_window" where
  "round_outward ext =
     \<lparr>row_start = \<lfloor>row_lo ext\<rfloor>, row_stop = \<lceil>row_hi ext\<rceil>,
      col_start = \<lfloor>col_lo ext\<rfloor>, col_stop = \<lceil>col_hi ext\<rceil>\<rparr>"

text \<open>
  Modelled from the spec: the clamping of one bound into a range, for ``clamps the
  result to the raster's dimensions''; not in the notebook.
\<close>

definition clamp :: "int \<Rightarrow> int \<Rightarrow> int \<Rightarrow> int" where
  "clamp lo hi v = max lo (min hi v)"

text \<open>
  Modelled from the spec: ``clamps the result to the raster's dimensions''; not in
  the notebook.
\<close>

definition clamp_window :: "raster_size \<Rightarrow> pixel_window \<Rightarrow> pixel_window" where
  "clamp_window sz w =
     \<lparr>row_start = clamp 0 (int (height sz)) (row_start w),
      row_stop = clamp 0 (int (height sz)) (row_stop w),
      col_start = clamp 0 (int (width sz)) (col_start w),
      col_stop = clamp 0 (int (width sz)) (col_stop w)\<rparr>"

text \<open>
  Modelled from the spec: ``the clamped window is empty'', the negation of
  \<open>row_start < row_stop\<close> and \<open>col_start < col_stop\<close>; not in the notebook.
\<close>

definition empty_window :: "pixel_window \<Rightarrow> bool" where
  "empty_window w \<longleftrightarrow> row_stop w \<le> row_start w \<or> col_stop w \<le> col_start w"

text \<open>
  Modelled from the spec: the errors of the taxonomy of section 7 that the two
  operations report; the notebook defines no error type.
\<close>

datatype error = OutOfBounds | WindowError | IOError

text \<open>
  Modelled from the spec: \<^verbatim>\<open>resolve_window(projected_geometry, raster_transform,
  raster_size) -> PixelWindow\<close> of section 4.2, which ``fails with OutOfBounds if
  the clamped window is empty''. The notebook's \<^verbatim>\<open>geometry_window(src, [proj_geom])\<close>
  is a call into rasterio; the function's body is not in the notebook.
\<close>

definition resolve_window :: "geometry \<Rightarrow> affine \<Rightarrow> raster_size \<Rightarrow> error + pixel_window" where
  "resolve_window projected_geometry raster_transform raster_size =
     (let w = clamp_window raster_size
                (round_outward (to_pixel_extent raster_transform (envelope projected_geometry)))
      in if empty_window w then Inl OutOfBounds else Inr w)"

text \<open>
  Modelled from the spec: ``an already-resolved window's corresponding CRS
  envelope'' of section 8, the bounding box, in CRS units, of the window's four
  corners; the mapping from a window back to CRS coordinates is not in the
  notebook.
\<close>

definition window_envelope :: "affine \<Rightarrow> pixel_window \<Rightarrow> geometry" where
  "window_envelope t w =
     (let env = envelope (Polygon
                  (apply_affine t (of_int (col_start w), of_int (row_start w)))
                  [apply_affine t (of_int (col_stop w), of_int (row_start w)),
                   apply_affine t (of_int (col_stop w), of_int (row_stop w)),
                   apply_affine t (of_int (col_start w), of_int (row_stop w))])
      in Box (xmin env, ymin env) (xmax env, ymax env))"

text \<open>
  Modelled from the spec: the Raster Reference of the data model; the class of the
  objects the platform client returns is not in the notebook. It has the fields
  the notebook reads and, with them, the CRS, the transform, the band count, the
  dimensions, the nodata value and the stored pixel grid, which is absent when
  the storage cannot be read.
\<close>

record raster_ref = raster +
  crs :: string
  transform :: affine
  bands :: nat
  shape :: raster_size
  nodata :: "rat option"
  stored :: "ndarray option"

text \<open>
  Modelled from the spec: the invariant of a Pixel Window, ``0 \<le> row-start <
  row-stop \<le> height, and likewise for columns''; not in the notebook.
\<close>

definition valid_window :: "raster_size \<Rightarrow> pixel_window \<Rightarrow> bool" where
  "valid_window sz w \<longleftrightarrow>
     0 \<le> row_start w \<and> row_start w < row_stop w \<and> row_stop w \<le> int (height sz)
     \<and> 0 \<le> col_start w \<and> col_start w < col_stop w \<and> col_stop w \<le> int (width sz)"

text \<open>
  Modelled from the spec: storage that is not ``corrupt'' (section 7): the stored
  grid has the band count and the dimensions the reference declares; the storage
  layer is not in the notebook.
\<close>

definition intact :: "raster_ref \<Rightarrow> ndarray \<Rightarrow> bool" where
  "intact r grid \<longleftrightarrow>
     length grid = bands r
     \<and> (\<forall>band\<in>set grid. length band = height (shape r)
          \<and> (\<forall>row\<in>set band. length row = width (shape r)))"

text \<open>
  Modelled from the spec: the part of a row or of a column that ``reads exactly the
  requested window'' keeps, from index \<open>start\<close> up to \<open>stop\<close> exclusive; the
  storage layer's windowed read is not in the notebook.
\<close>

definition slice :: "int \<Rightarrow> int \<Rightarrow> 'a list \<Rightarrow> 'a list" where
  "slice start stop xs = take (nat (stop - start)) (drop (nat start) xs)"

text \<open>
  Modelled from the spec: ``when fill_invalid is true, pixels marked nodata are
  replaced with a designated fill value (e.g., zero); when false, raw values are
  preserved''; not in the notebook.
\<close>

definition fill :: "bool \<Rightarrow> rat option \<Rightarrow> rat \<Rightarrow> rat" where
  "fill fill_invalid nd v = (if fill_invalid \<and> nd = Some v then 0 else v)"

text \<open>
  Modelled from the spec: ``the transform describing the sub-window's own
  geolocation'', the raster's transform with its origin moved to the window's
  first pixel; not in the notebook.
\<close>

definition window_transform :: "affine \<Rightarrow> pixel_window \<Rightarrow> affine" where
  "window_transform t w =
     t\<lparr>x_off := x_col t * of_int (col_start w) + x_row t * of_int (row_start w) + x_off t,
       y_off := y_col t * of_int (col_start w) + y_row t * of_int (row_start w) + y_off t\<rparr>"

text \<open>
  Modelled from the spec: \<^verbatim>\<open>read(raster_ref, window, fill_invalid: bool) ->
  (array[band, row, col], transform')\<close> of section 4.3, which ``opens the raster
  resource, reads exactly the requested window across all bands'', ``returns the
  transform describing the sub-window's own geolocation'' and ``fails with IOError
  on unreadable storage and WindowError if the window is rejected''. The notebook
  calls \<^verbatim>\<open>read_raster\<close> of \<^verbatim>\<open>vibe_notebook.raster\<close>; the function's body is not in
  the notebook. The resource is opened before the window is looked at, so
  unreadable storage is reported first.
\<close>

definition read :: "raster_ref \<Rightarrow> pixel_window \<Rightarrow> bool \<Rightarrow> error + ndarray \<times> affine" where
  "read raster_ref window fill_invalid =
     (case stored raster_ref of
        None \<Rightarrow> Inl IOError
      | Some grid \<Rightarrow>
          if \<not> intact raster_ref grid then Inl IOError
          else if \<not> valid_window (shape raster_ref) window then Inl WindowError
          else Inr (map (\<lambda>band.
                      map (\<lambda>row. map (fill fill_invalid (nodata raster_ref))
                                   (slice (col_start window) (col_stop window) row))
                        (slice (row_start window) (row_stop window) band))
                      grid,
                    window_transform (transform raster_ref) window))"

section \<open>Example data\<close>

text \<open>
  SpaceEye rasters of 2018-06-01, 06, 10 and 11; an instant is written in
  microseconds since 1970-01-01, so midnight of 2018-06-01 is
  \<open>1527811200000000\<close> and a day is \<open>86400000000\<close>.
\<close>

definition se_0601 :: raster where
  "se_0601 = \<lparr>url = ''spaceeye/2018-06-01.tif'', tile_id = ''21MXT'',
               time_range = (1527811200000000, 1527897600000000)\<rparr>"

definition se_0606 :: raster where
  "se_0606 = \<lparr>url = ''spaceeye/2018-06-06.tif'', tile_id = ''21MXT'',
               time_range = (1528243200000000, 1528329600000000)\<rparr>"

definition se_0610 :: raster where
  "se_0610 = \<lparr>url = ''spaceeye/2018-06-10.tif'', tile_id = ''21MXT'',
               time_range = (1528588800000000, 1528675200000000)\<rparr>"

definition se_0611 :: raster where
  "se_0611 = \<lparr>url = ''spaceeye/2018-06-11.tif'', tile_id = ''21MXT'',
               time_range = (1528675200000000, 1528761600000000)\<rparr>"

text \<open>
  A north-up tile of 11000 by 11000 pixels of 10 metres, its upper left corner at
  (499980, 9940000), as in the spec's end-to-end scenario; a transform rotated by
  45 degrees; and a small two-band raster of 3 rows and 4 columns.
\<close>

definition s2_tile :: affine where
  "s2_tile = \<lparr>x_col = 10, x_row = 0, x_off = 499980, y_col = 0, y_row = - 10, y_off = 9940000\<rparr>"

definition s2_size :: raster_size where
  "s2_size = \<lparr>height = 11000, width = 11000\<rparr>"

definition rotated :: affine where
  "rotated = \<lparr>x_col = 1, x_row = 1, x_off = 0, y_col = - 1, y_row = 1, y_off = 0\<rparr>"

definition small_ref :: raster_ref where
  "small_ref =
     \<lparr>url = ''s2/T21MXT_20180606.tif'', tile_id = ''21MXT'',
      time_range = (1528243200000000, 1528329600000000),
      crs = ''EPSG:32721'', transform = s2_tile, bands = 2,
      shape = \<lparr>height = 3, width = 4\<rparr>, nodata = Some 0,
      stored = Some [[[1, 2, 3, 4], [5, 6, 7, 8], [9, 10, 11, 12]],
                     [[0, 1, 0, 1], [1, 0, 1, 0], [0, 0, 1, 1]]]\<rparr>"

section \<open>Properties of the temporal aligner\<close>

lemma py_sorted_Nil_iff: "py_sorted key xs = [] \<longleftrightarrow> xs = []"
proof -
  have "length (py_sorted key xs) = length xs"
    by (simp add: py_sorted_def)
  then show ?thesis
    by (metis length_0_conv)
qed

lemma py_sorted_head_least:
  assumes "py_sorted key xs = r # rest"
  shows "r \<in> set xs" and "\<forall>x\<in>set xs. key r \<le> key x"
proof -
  have s: "set (r # rest) = set xs"
    using assms by (metis py_sorted_def set_sort)
  then show "r \<in> set xs"
    by auto
  have "sorted (map key (r # rest))"
    using assms by (metis py_sorted_def sorted_sort_key)
  then have "\<forall>x\<in>set (r # rest). key r \<le> key x"
    by auto
  then show "\<forall>x\<in>set xs. key r \<le> key x"
    unfolding s .
qed

lemma py_sorted_head_first:
  assumes "py_sorted key xs = r # rest"
  shows "\<exists>ys zs. xs = ys @ r # zs \<and> (\<forall>y\<in>set ys. key r < key y) \<and> (\<forall>z\<in>set zs. key r \<le> key z)"
proof -
  have "filter (\<lambda>y. key y = key r) (py_sorted key xs) = filter (\<lambda>y. key y = key r) xs"
    unfolding py_sorted_def by (rule sort_key_stable)
  then have "filter (\<lambda>y. key y = key r) xs = r # filter (\<lambda>y. key y = key r) rest"
    using assms by simp
  then obtain ys zs where
    split: "xs = ys @ r # zs" and before: "\<forall>y\<in>set ys. key y \<noteq> key r"
    by (auto simp: filter_eq_Cons_iff)
  have least: "\<forall>x\<in>set xs. key r \<le> key x"
    using assms by (rule py_sorted_head_least)
  have "\<forall>y\<in>set ys. key r < key y"
  proof
    fix y assume y: "y \<in> set ys"
    then have "key r \<le> key y"
      using least split by simp
    moreover have "key y \<noteq> key r"
      using before y by blast
    ultimately show "key r < key y"
      by simp
  qed
  moreover have "\<forall>z\<in>set zs. key r \<le> key z"
    using least split by simp
  ultimately show ?thesis
    using split by blast
qed

text \<open>
  Claim C9. For every collection of time-stamped rasters, \<^verbatim>\<open>sort_by_time\<close>
  returns a permutation of the collection (nothing dropped, nothing merged),
  ordered by acquisition start time, in which the rasters of any one start time
  stand in their input order; sorting a second time changes nothing.
\<close>

theorem sort_by_time_stable_permutation:
  "mset (s1_rasters output) = mset output
   \<and> sorted (map (\<lambda>x. fst (time_range x)) (s1_rasters output))
   \<and> filter (\<lambda>x. fst (time_range x) = k) (s1_rasters output)
       = filter (\<lambda>x. fst (time_range x) = k) output
   \<and> s1_rasters (s1_rasters output) = s1_rasters output"
proof -
  let ?key = "\<lambda>x::raster. fst (time_range x)"
  have ordered: "sorted (map ?key (sort_key ?key output))"
    by (rule sorted_sort_key)
  have "sort_key ?key (sort_key ?key output) = sort_key ?key output"
    using ordered by (rule sort_key_id_if_sorted)
  moreover have "filter (\<lambda>x. ?key x = k) (sort_key ?key output) = filter (\<lambda>x. ?key x = k) output"
    by (rule sort_key_stable)
  moreover have "mset (sort_key ?key output) = mset output"
    by simp
  ultimately show ?thesis
    using ordered by (simp add: s1_rasters_def py_sorted_def)
qed

text \<open>
  Claim C6, as amended. For every reference time, \<^verbatim>\<open>nearest\<close> applied to the empty
  collection fails with Python's \<^verbatim>\<open>IndexError\<close>, raised where the first element
  of the empty sorted list is taken, and the caller receives it; no raster is
  returned.
\<close>

theorem nearest_empty_raises_index_error:
  "se_raster t [] = Inl IndexError"
  by (simp add: se_raster_def py_sorted_def)

text \<open>
  Claim C6 as stated fails: the error the caller receives for the empty
  collection is not the \<open>EmptyCollection\<close> of the spec's taxonomy.
\<close>

theorem nearest_empty_collection_counterexample:
  "se_raster 0 [] = Inl IndexError \<and> se_raster 0 [] \<noteq> Inl EmptyCollection"
  by (simp add: se_raster_def py_sorted_def)

text \<open>
  Claim C2. For every non-empty collection and every reference time \<open>t\<close>,
  \<^verbatim>\<open>nearest\<close> returns an element of the collection whose absolute time difference
  to \<open>t\<close> is least over the whole collection; with start times 2018-06-01, 06-06
  and 06-11 (an instant \<open>d\<close>, and five and ten days later) and the reference
  time 2018-06-08 (seven days after \<open>d\<close>) it returns the 06-06 entry.
\<close>

theorem nearest_minimises_time_difference:
  "(output \<noteq> [] \<longrightarrow>
      (\<exists>r. se_raster t output = Inr r \<and> r \<in> set output
         \<and> (\<forall>x\<in>set output. \<bar>t - fst (time_range r)\<bar> \<le> \<bar>t - fst (time_range x)\<bar>)))
   \<and> (fst (time_range a) = d \<and> fst (time_range b) = d + 5 * 86400000000
        \<and> fst (time_range c) = d + 10 * 86400000000
      \<longrightarrow> se_raster (d + 7 * 86400000000) [a, b, c] = Inr b)"
proof (intro conjI impI)
  assume "output \<noteq> []"
  then obtain r rest where s: "py_sorted (\<lambda>x. \<bar>t - fst (time_range x)\<bar>) output = r # rest"
    by (metis py_sorted_Nil_iff list.exhaust)
  have "se_raster t output = Inr r"
    by (simp add: se_raster_def s)
  moreover have "r \<in> set output"
    using s by (rule py_sorted_head_least)
  moreover have "\<forall>x\<in>set output. \<bar>t - fst (time_range r)\<bar> \<le> \<bar>t - fst (time_range x)\<bar>"
    using s by (rule py_sorted_head_least)
  ultimately show "\<exists>r. se_raster t output = Inr r \<and> r \<in> set output
         \<and> (\<forall>x\<in>set output. \<bar>t - fst (time_range r)\<bar> \<le> \<bar>t - fst (time_range x)\<bar>)"
    by blast
next
  assume "fst (time_range a) = d \<and> fst (time_range b) = d + 5 * 86400000000
        \<and> fst (time_range c) = d + 10 * 86400000000"
  then show "se_raster (d + 7 * 86400000000) [a, b, c] = Inr b"
    by (simp add: se_raster_def py_sorted_def)
qed

theorem nearest_minimises_time_difference_witness:
  "[se_0601, se_0606, se_0611] \<noteq> []
   \<and> (\<exists>r. se_raster 1528416000000000 [se_0601, se_0606, se_0611] = Inr r
         \<and> r \<in> set [se_0601, se_0606, se_0611]
         \<and> (\<forall>x\<in>set [se_0601, se_0606, se_0611].
               \<bar>1528416000000000 - fst (time_range r)\<bar> \<le> \<bar>1528416000000000 - fst (time_range x)\<bar>))
   \<and> fst (time_range se_0601) = 1527811200000000
   \<and> fst (time_range se_0606) = 1527811200000000 + 5 * 86400000000
   \<and> fst (time_range se_0611) = 1527811200000000 + 10 * 86400000000
   \<and> se_raster (1527811200000000 + 7 * 86400000000) [se_0601, se_0606, se_0611] = Inr se_0606"
proof -
  have ne: "[se_0601, se_0606, se_0611] \<noteq> []"
    by simp
  have times: "fst (time_range se_0601) = 1527811200000000
      \<and> fst (time_range se_0606) = 1527811200000000 + 5 * 86400000000
      \<and> fst (time_range se_0611) = 1527811200000000 + 10 * 86400000000"
    by (simp add: se_0601_def se_0606_def se_0611_def)
  note inst = nearest_minimises_time_difference
      [of "[se_0601, se_0606, se_0611]" 1528416000000000 se_0601 1527811200000000 se_0606 se_0611]
  have "se_raster (1527811200000000 + 7 * 86400000000) [se_0601, se_0606, se_0611] = Inr se_0606"
    using inst times by blast
  moreover have "\<exists>r. se_raster 1528416000000000 [se_0601, se_0606, se_0611] = Inr r
         \<and> r \<in> set [se_0601, se_0606, se_0611]
         \<and> (\<forall>x\<in>set [se_0601, se_0606, se_0611].
               \<bar>1528416000000000 - fst (time_range r)\<bar> \<le> \<bar>1528416000000000 - fst (time_range x)\<bar>)"
    using inst ne by blast
  ultimately show ?thesis
    using ne times by blast
qed

text \<open>
  Claim C10. For every non-empty collection and reference time \<open>t\<close>, \<^verbatim>\<open>nearest\<close>
  returns the entry at a position such that every entry before it in the input
  is strictly farther from \<open>t\<close> and every entry after it is at least as far:
  among the entries tied for the least distance it is the one that comes first
  in the input order.
\<close>

theorem nearest_tie_earliest_in_input:
  "output \<noteq> [] \<Longrightarrow>
     \<exists>ys r zs. output = ys @ r # zs \<and> se_raster t output = Inr r
       \<and> (\<forall>y\<in>set ys. \<bar>t - fst (time_range r)\<bar> < \<bar>t - fst (time_range y)\<bar>)
       \<and> (\<forall>z\<in>set zs. \<bar>t - fst (time_range r)\<bar> \<le> \<bar>t - fst (time_range z)\<bar>)"
proof -
  assume "output \<noteq> []"
  then obtain r rest where s: "py_sorted (\<lambda>x. \<bar>t - fst (time_range x)\<bar>) output = r # rest"
    by (metis py_sorted_Nil_iff list.exhaust)
  have "se_raster t output = Inr r"
    by (simp add: se_raster_def s)
  then show ?thesis
    using py_sorted_head_first [OF s] by blast
qed

theorem nearest_tie_earliest_in_input_witness:
  "[se_0601, se_0610, se_0606] \<noteq> []
   \<and> (\<exists>ys r zs. [se_0601, se_0610, se_0606] = ys @ r # zs
         \<and> se_raster 1528416000000000 [se_0601, se_0610, se_0606] = Inr r
         \<and> (\<forall>y\<in>set ys. \<bar>1528416000000000 - fst (time_range r)\<bar>
                            < \<bar>1528416000000000 - fst (time_range y)\<bar>)
         \<and> (\<forall>z\<in>set zs. \<bar>1528416000000000 - fst (time_range r)\<bar>
                            \<le> \<bar>1528416000000000 - fst (time_range z)\<bar>))
   \<and> se_raster 1528416000000000 [se_0601, se_0610, se_0606] = Inr se_0610"
proof -
  have ne: "[se_0601, se_0610, se_0606] \<noteq> []"
    by simp
  have "se_raster 1528416000000000 [se_0601, se_0610, se_0606] = Inr se_0610"
    by (simp add: se_raster_def py_sorted_def se_0601_def se_0610_def se_0606_def)
  then show ?thesis
    using ne nearest_tie_earliest_in_input [OF ne, of 1528416000000000] by blast
qed

section \<open>Properties of the cloud threshold\<close>

lemma selected_positions:
  "[s2. (s2, c) \<leftarrow> zip rasters ratios, keep c]
     = nths rasters {i. i < length ratios \<and> keep (ratios ! i)}"
proof (induction rasters arbitrary: ratios)
  case Nil
  show ?case by simp
next
  case (Cons r rasters)
  show ?case
  proof (cases ratios)
    case Nil
    then show ?thesis by simp
  next
    case (Cons c rest)
    have shift: "{j. Suc j \<in> {i. i < length (c # rest) \<and> keep ((c # rest) ! i)}}
        = {j. j < length rest \<and> keep (rest ! j)}"
      by auto
    have head: "0 \<in> {i. i < length (c # rest) \<and> keep ((c # rest) ! i)} \<longleftrightarrow> keep c"
      by simp
    show ?thesis
      unfolding Cons nths_Cons shift head
      using Cons.IH [of rest] by simp
  qed
qed

lemma np_lt_iff: "np_lt c thr \<longleftrightarrow> (\<exists>ratio. c = Fin ratio \<and> ratio < thr)"
  by (cases c) simp_all

lemma np_ge_iff: "np_ge c thr \<longleftrightarrow> (\<exists>ratio. c = Fin ratio \<and> thr \<le> ratio)"
  by (cases c) simp_all

text \<open>
  Claim C4. For every threshold and every list of rasters with their ratios, the
  cloud-free (usable) rasters are those at exactly the positions whose ratio is
  strictly below the threshold, and the cloudy (unusable) rasters those at
  exactly the positions whose ratio is at or above it, both in their input
  order. So one raster with one ratio is usable exactly when the ratio is below
  the threshold and unusable whenever it is at or above it; a ratio equal to the
  threshold makes it unusable.
\<close>

theorem cloud_threshold_is_strict:
  "cloud_free_rasters rasters cloud_ratio cloud_thr
     = nths rasters
         {i. i < length cloud_ratio \<and> (\<exists>ratio. cloud_ratio ! i = Fin ratio \<and> ratio < cloud_thr)}
   \<and> cloudy_rasters rasters cloud_ratio cloud_thr
     = nths rasters
         {i. i < length cloud_ratio \<and> (\<exists>ratio. cloud_ratio ! i = Fin ratio \<and> cloud_thr \<le> ratio)}
   \<and> (cloud_free_rasters [s2] [Fin ratio] cloud_thr = [s2] \<longleftrightarrow> ratio < cloud_thr)
   \<and> (ratio < cloud_thr \<longrightarrow> cloudy_rasters [s2] [Fin ratio] cloud_thr = [])
   \<and> (cloud_thr \<le> ratio \<longrightarrow>
        cloudy_rasters [s2] [Fin ratio] cloud_thr = [s2]
        \<and> cloud_free_rasters [s2] [Fin ratio] cloud_thr = [])
   \<and> cloudy_rasters [s2] [Fin cloud_thr] cloud_thr = [s2]
   \<and> cloud_free_rasters [s2] [Fin cloud_thr] cloud_thr = []"
proof -
  have "cloud_free_rasters rasters cloud_ratio cloud_thr
      = nths rasters {i. i < length cloud_ratio \<and> np_lt (cloud_ratio ! i) cloud_thr}"
    unfolding cloud_free_rasters_def by (rule selected_positions)
  moreover have "cloudy_rasters rasters cloud_ratio cloud_thr
      = nths rasters {i. i < length cloud_ratio \<and> np_ge (cloud_ratio ! i) cloud_thr}"
    unfolding cloudy_rasters_def by (rule selected_positions)
  ultimately show ?thesis
    by (simp add: np_lt_iff np_ge_iff) (simp add: cloud_free_rasters_def cloudy_rasters_def)
qed

theorem cloud_threshold_is_strict_witness:
  "(1 / 20 :: rat) < 1 / 10
   \<and> cloud_free_rasters [se_0601] [Fin (1 / 20)] (1 / 10) = [se_0601]
   \<and> cloudy_rasters [se_0601] [Fin (1 / 20)] (1 / 10) = []
   \<and> (1 / 10 :: rat) \<le> 1 / 2
   \<and> cloudy_rasters [se_0606] [Fin (1 / 2)] (1 / 10) = [se_0606]
   \<and> cloud_free_rasters [se_0606] [Fin (1 / 2)] (1 / 10) = []
   \<and> cloud_free_rasters [se_0601, se_0606, se_0610, se_0611]
        [Fin (1 / 20), Fin (1 / 2), Fin (1 / 10), NaN] (1 / 10) = [se_0601]
   \<and> cloudy_rasters [se_0601, se_0606, se_0610, se_0611]
        [Fin (1 / 20), Fin (1 / 2), Fin (1 / 10), NaN] (1 / 10) = [se_0606, se_0610]"
proof -
  have lt: "(1 / 20 :: rat) < 1 / 10" and ge: "(1 / 10 :: rat) \<le> 1 / 2"
    by simp_all
  have "cloud_free_rasters [se_0601] [Fin (1 / 20)] (1 / 10) = [se_0601]
      \<and> cloudy_rasters [se_0601] [Fin (1 / 20)] (1 / 10) = []"
    using cloud_threshold_is_strict [of _ _ "1 / 10" se_0601 "1 / 20"] lt by blast
  moreover have "cloudy_rasters [se_0606] [Fin (1 / 2)] (1 / 10) = [se_0606]
      \<and> cloud_free_rasters [se_0606] [Fin (1 / 2)] (1 / 10) = []"
    using cloud_threshold_is_strict [of _ _ "1 / 10" se_0606 "1 / 2"] ge by blast
  moreover have "cloud_free_rasters [se_0601, se_0606, se_0610, se_0611]
        [Fin (1 / 20), Fin (1 / 2), Fin (1 / 10), NaN] (1 / 10) = [se_0601]"
    by (simp add: cloud_free_rasters_def)
  moreover have "cloudy_rasters [se_0601, se_0606, se_0610, se_0611]
        [Fin (1 / 20), Fin (1 / 2), Fin (1 / 10), NaN] (1 / 10) = [se_0606, se_0610]"
    by (simp add: cloudy_rasters_def)
  ultimately show ?thesis
    using lt ge by blast
qed

section \<open>Properties of the window resolver\<close>

lemmas resolve_defs = resolve_window_def envelope_def to_pixel_extent_def corners_def
  apply_affine_def inverse_affine_def det_def round_outward_def clamp_window_def clamp_def
  empty_window_def

lemma resolve_window_cases:
  "resolve_window g t sz =
     (if empty_window (clamp_window sz (round_outward (to_pixel_extent t (envelope g))))
      then Inl OutOfBounds
      else Inr (clamp_window sz (round_outward (to_pixel_extent t (envelope g)))))"
  by (simp add: resolve_window_def Let_def)

lemma resolve_window_Inr:
  assumes "resolve_window g t sz = Inr w"
  shows "w = clamp_window sz (round_outward (to_pixel_extent t (envelope g)))"
    and "\<not> empty_window w"
  using assms by (auto simp: resolve_window_cases split: if_splits)

lemma clamp_range: "0 \<le> clamp 0 (int n) v \<and> clamp 0 (int n) v \<le> int n"
  by (simp add: clamp_def)

lemma clamp_inside: "0 \<le> v \<Longrightarrow> v \<le> n \<Longrightarrow> clamp 0 n v = v"
  by (simp add: clamp_def)

lemma resolve_window_valid:
  assumes "resolve_window g t sz = Inr w"
  shows "valid_window sz w"
proof -
  note w = resolve_window_Inr [OF assms]
  have "0 \<le> row_start w" "row_stop w \<le> int (height sz)"
    "0 \<le> col_start w" "col_stop w \<le> int (width sz)"
    unfolding w(1) by (simp_all add: clamp_window_def clamp_range)
  moreover have "row_start w < row_stop w" "col_start w < col_stop w"
    using w(2) by (simp_all add: empty_window_def)
  ultimately show ?thesis
    by (simp add: valid_window_def)
qed

text \<open>For an invertible transform, \<^const>\<open>inverse_affine\<close> undoes the transform.\<close>

lemma inverse_affine_undoes:
  assumes "det t \<noteq> 0"
  shows "apply_affine (inverse_affine t) (apply_affine t (col, row)) = (col, row)"
proof -
  let ?x = "x_col t * col + x_row t * row + x_off t"
  let ?y = "y_col t * col + y_row t * row + y_off t"
  have "y_row t / det t * ?x + - x_row t / det t * ?y + (x_row t * y_off t - y_row t * x_off t) / det t
      = (y_row t * ?x - x_row t * ?y + (x_row t * y_off t - y_row t * x_off t)) / det t"
    by (simp add: add_divide_distrib diff_divide_distrib)
  also have "y_row t * ?x - x_row t * ?y + (x_row t * y_off t - y_row t * x_off t) = det t * col"
    by (simp add: det_def algebra_simps)
  finally have c: "y_row t / det t * ?x + - x_row t / det t * ?y
      + (x_row t * y_off t - y_row t * x_off t) / det t = col"
    using assms by simp
  have "- y_col t / det t * ?x + x_col t / det t * ?y + (y_col t * x_off t - x_col t * y_off t) / det t
      = (x_col t * ?y - y_col t * ?x + (y_col t * x_off t - x_col t * y_off t)) / det t"
    by (simp add: add_divide_distrib diff_divide_distrib)
  also have "x_col t * ?y - y_col t * ?x + (y_col t * x_off t - x_col t * y_off t) = det t * row"
    by (simp add: det_def algebra_simps)
  finally have r: "- y_col t / det t * ?x + x_col t / det t * ?y
      + (y_col t * x_off t - x_col t * y_off t) / det t = row"
    using assms by simp
  show ?thesis
    using c r by (simp add: apply_affine_def inverse_affine_def)
qed

text \<open>
  Claim C7. \<^verbatim>\<open>resolve_window\<close> clamps the rounded pixel rectangle to the raster's
  dimensions: a window it returns is the clamped rectangle and satisfies
  \<open>0 \<le> row_start < row_stop \<le> height\<close> and \<open>0 \<le> col_start < col_stop \<le> width\<close>;
  whenever the clamped rectangle is empty the result is the error \<^verbatim>\<open>OutOfBounds\<close>,
  never an empty window, and that is the case for every geometry whose envelope,
  in pixel coordinates, lies beside, above or below the raster grid.
\<close>

theorem resolve_window_clamps_or_out_of_bounds:
  "(resolve_window g t sz = Inr w \<longrightarrow>
      w = clamp_window sz (round_outward (to_pixel_extent t (envelope g)))
      \<and> 0 \<le> row_start w \<and> row_start w < row_stop w \<and> row_stop w \<le> int (height sz)
      \<and> 0 \<le> col_start w \<and> col_start w < col_stop w \<and> col_stop w \<le> int (width sz))
   \<and> (empty_window (clamp_window sz (round_outward (to_pixel_extent t (envelope g))))
        \<longrightarrow> resolve_window g t sz = Inl OutOfBounds)
   \<and> (col_hi (to_pixel_extent t (envelope g)) \<le> 0
        \<or> of_nat (width sz) \<le> col_lo (to_pixel_extent t (envelope g))
        \<or> row_hi (to_pixel_extent t (envelope g)) \<le> 0
        \<or> of_nat (height sz) \<le> row_lo (to_pixel_extent t (envelope g))
        \<longrightarrow> resolve_window g t sz = Inl OutOfBounds)"
proof (intro conjI impI)
  assume r: "resolve_window g t sz = Inr w"
  note w = resolve_window_Inr [OF r]
  show "w = clamp_window sz (round_outward (to_pixel_extent t (envelope g)))"
    by (rule w)
  have rows: "0 \<le> row_start w" "row_stop w \<le> int (height sz)"
    and cols: "0 \<le> col_start w" "col_stop w \<le> int (width sz)"
    unfolding w(1) by (simp_all add: clamp_window_def clamp_range)
  show "0 \<le> row_start w" "row_stop w \<le> int (height sz)"
    "0 \<le> col_start w" "col_stop w \<le> int (width sz)"
    by (rule rows cols)+
  show "row_start w < row_stop w" "col_start w < col_stop w"
    using w(2) by (simp_all add: empty_window_def)
next
  assume "empty_window (clamp_window sz (round_outward (to_pixel_extent t (envelope g))))"
  then show "resolve_window g t sz = Inl OutOfBounds"
    by (simp add: resolve_window_cases)
next
  let ?ext = "to_pixel_extent t (envelope g)"
  assume off: "col_hi ?ext \<le> 0 \<or> of_nat (width sz) \<le> col_lo ?ext
        \<or> row_hi ?ext \<le> 0 \<or> of_nat (height sz) \<le> row_lo ?ext"
  have hi: "clamp 0 (int n) \<lceil>v\<rceil> \<le> 0" if "v \<le> 0" for n and v :: rat
  proof -
    have "\<lceil>v\<rceil> \<le> 0" using that by (simp add: ceiling_le_iff)
    then show ?thesis unfolding clamp_def by linarith
  qed
  have lo: "int n \<le> clamp 0 (int n) \<lfloor>v\<rfloor>" if "of_nat n \<le> v" for n and v :: rat
  proof -
    have "int n \<le> \<lfloor>v\<rfloor>" using that by (simp add: le_floor_iff)
    then show ?thesis unfolding clamp_def by linarith
  qed
  have "empty_window (clamp_window sz (round_outward ?ext))"
    using off
  proof (elim disjE)
    assume "col_hi ?ext \<le> 0"
    then have "clamp 0 (int (width sz)) \<lceil>col_hi ?ext\<rceil> \<le> 0"
      by (rule hi)
    moreover have "0 \<le> clamp 0 (int (width sz)) \<lfloor>col_lo ?ext\<rfloor>"
      using clamp_range by blast
    ultimately show ?thesis
      by (simp add: empty_window_def clamp_window_def round_outward_def)
  next
    assume "of_nat (width sz) \<le> col_lo ?ext"
    then have "int (width sz) \<le> clamp 0 (int (width sz)) \<lfloor>col_lo ?ext\<rfloor>"
      by (rule lo)
    moreover have "clamp 0 (int (width sz)) \<lceil>col_hi ?ext\<rceil> \<le> int (width sz)"
      using clamp_range by blast
    ultimately show ?thesis
      by (simp add: empty_window_def clamp_window_def round_outward_def)
  next
    assume "row_hi ?ext \<le> 0"
    then have "clamp 0 (int (height sz)) \<lceil>row_hi ?ext\<rceil> \<le> 0"
      by (rule hi)
    moreover have "0 \<le> clamp 0 (int (height sz)) \<lfloor>row_lo ?ext\<rfloor>"
      using clamp_range by blast
    ultimately show ?thesis
      by (simp add: empty_window_def clamp_window_def round_outward_def)
  next
    assume "of_nat (height sz) \<le> row_lo ?ext"
    then have "int (height sz) \<le> clamp 0 (int (height sz)) \<lfloor>row_lo ?ext\<rfloor>"
      by (rule lo)
    moreover have "clamp 0 (int (height sz)) \<lceil>row_hi ?ext\<rceil> \<le> int (height sz)"
      using clamp_range by blast
    ultimately show ?thesis
      by (simp add: empty_window_def clamp_window_def round_outward_def)
  qed
  then show "resolve_window g t sz = Inl OutOfBounds"
    by (simp add: resolve_window_cases)
qed

theorem resolve_window_clamps_or_out_of_bounds_witness:
  "resolve_window (Box (500000, 9930000) (501000, 9931000)) s2_tile s2_size
     = Inr \<lparr>row_start = 900, row_stop = 1000, col_start = 2, col_stop = 102\<rparr>
   \<and> (0::int) \<le> 900 \<and> (900::int) < 1000 \<and> 1000 \<le> int (height s2_size)
   \<and> (0::int) \<le> 2 \<and> (2::int) < 102 \<and> 102 \<le> int (width s2_size)
   \<and> col_hi (to_pixel_extent s2_tile (envelope (Box (400000, 9930000) (401000, 9931000)))) \<le> 0
   \<and> resolve_window (Box (400000, 9930000) (401000, 9931000)) s2_tile s2_size = Inl OutOfBounds"
proof -
  let ?w = "\<lparr>row_start = 900, row_stop = 1000, col_start = 2, col_stop = 102\<rparr>"
  have r: "resolve_window (Box (500000, 9930000) (501000, 9931000)) s2_tile s2_size = Inr ?w"
    by (simp add: resolve_defs s2_tile_def s2_size_def)
  have "0 \<le> row_start ?w \<and> row_start ?w < row_stop ?w \<and> row_stop ?w \<le> int (height s2_size)
      \<and> 0 \<le> col_start ?w \<and> col_start ?w < col_stop ?w \<and> col_stop ?w \<le> int (width s2_size)"
    using resolve_window_clamps_or_out_of_bounds
      [of "Box (500000, 9930000) (501000, 9931000)" s2_tile s2_size ?w] r
    by blast
  then have inv: "(0::int) \<le> 900 \<and> (900::int) < 1000 \<and> 1000 \<le> int (height s2_size)
      \<and> (0::int) \<le> 2 \<and> (2::int) < 102 \<and> 102 \<le> int (width s2_size)"
    by simp
  have off: "col_hi (to_pixel_extent s2_tile (envelope (Box (400000, 9930000) (401000, 9931000)))) \<le> 0"
    by (simp add: resolve_defs s2_tile_def)
  have "resolve_window (Box (400000, 9930000) (401000, 9931000)) s2_tile s2_size = Inl OutOfBounds"
    using resolve_window_clamps_or_out_of_bounds
      [of "Box (400000, 9930000) (401000, 9931000)" s2_tile s2_size] off
    by blast
  then show ?thesis
    using r inv off by blast
qed

lemma scale_between:
  fixes p :: rat
  assumes "lo \<le> x" and "x \<le> hi"
  shows "(p * lo \<le> p * x \<and> p * x \<le> p * hi) \<or> (p * hi \<le> p * x \<and> p * x \<le> p * lo)"
proof (cases "0 \<le> p")
  case True
  then show ?thesis
    using assms by (simp add: mult_left_mono)
next
  case False
  then have "p \<le> 0" by simp
  then show ?thesis
    using assms by (simp add: mult_left_mono_neg)
qed

lemma extent_encloses:
  assumes "xmin env \<le> x" and "x \<le> xmax env" and "ymin env \<le> y" and "y \<le> ymax env"
  shows "col_lo (to_pixel_extent t env) \<le> fst (apply_affine (inverse_affine t) (x, y))"
    and "fst (apply_affine (inverse_affine t) (x, y)) \<le> col_hi (to_pixel_extent t env)"
    and "row_lo (to_pixel_extent t env) \<le> snd (apply_affine (inverse_affine t) (x, y))"
    and "snd (apply_affine (inverse_affine t) (x, y)) \<le> row_hi (to_pixel_extent t env)"
proof -
  let ?s = "inverse_affine t"
  note px = scale_between [OF assms(1,2), of "x_col ?s"]
  note qy = scale_between [OF assms(3,4), of "x_row ?s"]
  note rx = scale_between [OF assms(1,2), of "y_col ?s"]
  note sy = scale_between [OF assms(3,4), of "y_row ?s"]
  show "col_lo (to_pixel_extent t env) \<le> fst (apply_affine ?s (x, y))"
    using px qy unfolding to_pixel_extent_def corners_def apply_affine_def Let_def
    by (simp add: min_le_iff_disj) linarith
  show "fst (apply_affine ?s (x, y)) \<le> col_hi (to_pixel_extent t env)"
    using px qy unfolding to_pixel_extent_def corners_def apply_affine_def Let_def
    by (simp add: le_max_iff_disj) linarith
  show "row_lo (to_pixel_extent t env) \<le> snd (apply_affine ?s (x, y))"
    using rx sy unfolding to_pixel_extent_def corners_def apply_affine_def Let_def
    by (simp add: min_le_iff_disj) linarith
  show "snd (apply_affine ?s (x, y)) \<le> row_hi (to_pixel_extent t env)"
    using rx sy unfolding to_pixel_extent_def corners_def apply_affine_def Let_def
    by (simp add: le_max_iff_disj) linarith
qed

lemma extent_ordered:
  "col_lo (to_pixel_extent t env) \<le> col_hi (to_pixel_extent t env)"
  "row_lo (to_pixel_extent t env) \<le> row_hi (to_pixel_extent t env)"
  unfolding to_pixel_extent_def corners_def Let_def by simp_all

lemma clamp_floor_le:
  fixes lo v :: rat
  assumes "0 \<le> j" and "lo \<le> v" and "v < of_int j + 1"
  shows "clamp 0 n \<lfloor>lo\<rfloor> \<le> j"
proof -
  have "lo < of_int (j + 1)"
    using assms(2,3) by simp
  then have "\<lfloor>lo\<rfloor> < j + 1"
    by (simp only: floor_less_iff)
  then show ?thesis
    using assms(1) unfolding clamp_def by linarith
qed

lemma less_clamp_ceiling:
  fixes hi v :: rat
  assumes "0 \<le> j" and "j < n" and "of_int j < v" and "v \<le> hi"
  shows "j < clamp 0 n \<lceil>hi\<rceil>"
proof -
  have "of_int j < hi"
    using assms(3,4) by simp
  then have "j < \<lceil>hi\<rceil>"
    by (simp only: less_ceiling_iff)
  then show ?thesis
    using assms(1,2) unfolding clamp_def by linarith
qed

text \<open>
  Claim C1, as amended. For every geometry and raster for which \<^verbatim>\<open>resolve_window\<close>
  returns a window: the window's bounds are the floors of the envelope's lower
  and the ceilings of its upper fractional pixel coordinates, clamped to the
  raster's dimensions; every pixel of the raster grid whose cell holds a point of
  the envelope in its interior belongs to the window, so that no pixel
  overlapping the envelope is excluded; and when the envelope lies within the
  raster grid, the bounds are those floors and ceilings themselves and the
  window contains every point of the envelope.
\<close>

theorem resolve_window_covers_envelope_on_grid:
  assumes "resolve_window g t sz = Inr w"
  shows "row_start w = clamp 0 (int (height sz)) \<lfloor>row_lo (to_pixel_extent t (envelope g))\<rfloor>
       \<and> row_stop w = clamp 0 (int (height sz)) \<lceil>row_hi (to_pixel_extent t (envelope g))\<rceil>
       \<and> col_start w = clamp 0 (int (width sz)) \<lfloor>col_lo (to_pixel_extent t (envelope g))\<rfloor>
       \<and> col_stop w = clamp 0 (int (width sz)) \<lceil>col_hi (to_pixel_extent t (envelope g))\<rceil>
       \<and> (\<forall>x y i j.
             xmin (envelope g) \<le> x \<and> x \<le> xmax (envelope g)
             \<and> ymin (envelope g) \<le> y \<and> y \<le> ymax (envelope g)
             \<and> 0 \<le> i \<and> i < int (height sz) \<and> 0 \<le> j \<and> j < int (width sz)
             \<and> of_int j < fst (apply_affine (inverse_affine t) (x, y))
             \<and> fst (apply_affine (inverse_affine t) (x, y)) < of_int j + 1
             \<and> of_int i < snd (apply_affine (inverse_affine t) (x, y))
             \<and> snd (apply_affine (inverse_affine t) (x, y)) < of_int i + 1
           \<longrightarrow> row_start w \<le> i \<and> i < row_stop w \<and> col_start w \<le> j \<and> j < col_stop w)
       \<and> (0 \<le> col_lo (to_pixel_extent t (envelope g))
            \<and> col_hi (to_pixel_extent t (envelope g)) \<le> of_nat (width sz)
            \<and> 0 \<le> row_lo (to_pixel_extent t (envelope g))
            \<and> row_hi (to_pixel_extent t (envelope g)) \<le> of_nat (height sz)
          \<longrightarrow> w = round_outward (to_pixel_extent t (envelope g))
              \<and> (\<forall>x y.
                    xmin (envelope g) \<le> x \<and> x \<le> xmax (envelope g)
                    \<and> ymin (envelope g) \<le> y \<and> y \<le> ymax (envelope g)
                  \<longrightarrow> of_int (col_start w) \<le> fst (apply_affine (inverse_affine t) (x, y))
                      \<and> fst (apply_affine (inverse_affine t) (x, y)) \<le> of_int (col_stop w)
                      \<and> of_int (row_start w) \<le> snd (apply_affine (inverse_affine t) (x, y))
                      \<and> snd (apply_affine (inverse_affine t) (x, y)) \<le> of_int (row_stop w)))"
proof -
  let ?env = "envelope g"
  let ?ext = "to_pixel_extent t ?env"
  let ?P = "apply_affine (inverse_affine t)"
  have w: "w = clamp_window sz (round_outward ?ext)"
    using assms by (rule resolve_window_Inr)
  have bounds:
    "row_start w = clamp 0 (int (height sz)) \<lfloor>row_lo ?ext\<rfloor>"
    "row_stop w = clamp 0 (int (height sz)) \<lceil>row_hi ?ext\<rceil>"
    "col_start w = clamp 0 (int (width sz)) \<lfloor>col_lo ?ext\<rfloor>"
    "col_stop w = clamp 0 (int (width sz)) \<lceil>col_hi ?ext\<rceil>"
    unfolding w by (simp_all add: clamp_window_def round_outward_def)
  have pixels: "row_start w \<le> i \<and> i < row_stop w \<and> col_start w \<le> j \<and> j < col_stop w"
    if env: "xmin ?env \<le> x" "x \<le> xmax ?env" "ymin ?env \<le> y" "y \<le> ymax ?env"
      and grid: "0 \<le> i" "i < int (height sz)" "0 \<le> j" "j < int (width sz)"
      and cell: "of_int j < fst (?P (x, y))" "fst (?P (x, y)) < of_int j + 1"
        "of_int i < snd (?P (x, y))" "snd (?P (x, y)) < of_int i + 1"
    for x y i j
  proof -
    note e = extent_encloses [OF env, of t]
    have "row_start w \<le> i"
      unfolding bounds using grid(1) e(3) cell(4) by (rule clamp_floor_le)
    moreover have "i < row_stop w"
      unfolding bounds using grid(1,2) cell(3) e(4) by (rule less_clamp_ceiling)
    moreover have "col_start w \<le> j"
      unfolding bounds using grid(3) e(1) cell(2) by (rule clamp_floor_le)
    moreover have "j < col_stop w"
      unfolding bounds using grid(3,4) cell(1) e(2) by (rule less_clamp_ceiling)
    ultimately show ?thesis
      by blast
  qed
  have inside: "w = round_outward ?ext
      \<and> (\<forall>x y. xmin ?env \<le> x \<and> x \<le> xmax ?env \<and> ymin ?env \<le> y \<and> y \<le> ymax ?env
            \<longrightarrow> of_int (col_start w) \<le> fst (?P (x, y)) \<and> fst (?P (x, y)) \<le> of_int (col_stop w)
                \<and> of_int (row_start w) \<le> snd (?P (x, y)) \<and> snd (?P (x, y)) \<le> of_int (row_stop w))"
    if fit: "0 \<le> col_lo ?ext" "col_hi ?ext \<le> of_nat (width sz)"
      "0 \<le> row_lo ?ext" "row_hi ?ext \<le> of_nat (height sz)"
  proof -
    note ord = extent_ordered [of t ?env]
    have c0: "0 \<le> \<lfloor>col_lo ?ext\<rfloor>" "\<lfloor>col_lo ?ext\<rfloor> \<le> int (width sz)"
      using fit(1,2) ord(1) by (simp_all add: le_floor_iff floor_le_iff)
    have c1: "0 \<le> \<lceil>col_hi ?ext\<rceil>" "\<lceil>col_hi ?ext\<rceil> \<le> int (width sz)"
      using fit(1,2) ord(1) by (simp_all add: le_ceiling_iff ceiling_le_iff)
    have r0: "0 \<le> \<lfloor>row_lo ?ext\<rfloor>" "\<lfloor>row_lo ?ext\<rfloor> \<le> int (height sz)"
      using fit(3,4) ord(2) by (simp_all add: le_floor_iff floor_le_iff)
    have r1: "0 \<le> \<lceil>row_hi ?ext\<rceil>" "\<lceil>row_hi ?ext\<rceil> \<le> int (height sz)"
      using fit(3,4) ord(2) by (simp_all add: le_ceiling_iff ceiling_le_iff)
    have exact: "row_start w = \<lfloor>row_lo ?ext\<rfloor>" "row_stop w = \<lceil>row_hi ?ext\<rceil>"
      "col_start w = \<lfloor>col_lo ?ext\<rfloor>" "col_stop w = \<lceil>col_hi ?ext\<rceil>"
      unfolding bounds using c0 c1 r0 r1 by (simp_all add: clamp_inside)
    have eq: "w = round_outward ?ext"
      using exact by (simp add: round_outward_def)
    have "of_int (col_start w) \<le> fst (?P (x, y)) \<and> fst (?P (x, y)) \<le> of_int (col_stop w)
        \<and> of_int (row_start w) \<le> snd (?P (x, y)) \<and> snd (?P (x, y)) \<le> of_int (row_stop w)"
      if env: "xmin ?env \<le> x" "x \<le> xmax ?env" "ymin ?env \<le> y" "y \<le> ymax ?env" for x y
    proof -
      note e = extent_encloses [OF env, of t]
      have "of_int \<lfloor>col_lo ?ext\<rfloor> \<le> col_lo ?ext" "col_hi ?ext \<le> of_int \<lceil>col_hi ?ext\<rceil>"
        "of_int \<lfloor>row_lo ?ext\<rfloor> \<le> row_lo ?ext" "row_hi ?ext \<le> of_int \<lceil>row_hi ?ext\<rceil>"
        by simp_all
      then show ?thesis
        unfolding exact using e by linarith
    qed
    then show ?thesis
      using eq by blast
  qed
  show ?thesis
    using bounds pixels inside by blast
qed

theorem resolve_window_covers_envelope_on_grid_witness:
  "resolve_window (Box (500000, 9930000) (501000, 9931000)) s2_tile s2_size
     = Inr \<lparr>row_start = 900, row_stop = 1000, col_start = 2, col_stop = 102\<rparr>
   \<and> \<lparr>row_start = 900, row_stop = 1000, col_start = 2, col_stop = 102\<rparr>
       = round_outward (to_pixel_extent s2_tile (envelope (Box (500000, 9930000) (501000, 9931000))))
   \<and> apply_affine (inverse_affine s2_tile) (500505, 9930495) = (105 / 2, 1901 / 2)
   \<and> (900::int) \<le> 950 \<and> (950::int) < 1000 \<and> (2::int) \<le> 52 \<and> (52::int) < 102"
proof -
  let ?g = "Box (500000, 9930000) (501000, 9931000)"
  let ?w = "\<lparr>row_start = 900, row_stop = 1000, col_start = 2, col_stop = 102\<rparr>"
  have r: "resolve_window ?g s2_tile s2_size = Inr ?w"
    by (simp add: resolve_defs s2_tile_def s2_size_def)
  note cover = resolve_window_covers_envelope_on_grid [OF r]
  have fit: "0 \<le> col_lo (to_pixel_extent s2_tile (envelope ?g))
      \<and> col_hi (to_pixel_extent s2_tile (envelope ?g)) \<le> of_nat (width s2_size)
      \<and> 0 \<le> row_lo (to_pixel_extent s2_tile (envelope ?g))
      \<and> row_hi (to_pixel_extent s2_tile (envelope ?g)) \<le> of_nat (height s2_size)"
    by (simp add: resolve_defs s2_tile_def s2_size_def)
  have exact: "?w = round_outward (to_pixel_extent s2_tile (envelope ?g))"
    using cover fit by blast
  have px: "apply_affine (inverse_affine s2_tile) (500505, 9930495) = (105 / 2, 1901 / 2)"
    by (simp add: apply_affine_def inverse_affine_def det_def s2_tile_def)
  have cell: "xmin (envelope ?g) \<le> 500505 \<and> 500505 \<le> xmax (envelope ?g)
      \<and> ymin (envelope ?g) \<le> 9930495 \<and> 9930495 \<le> ymax (envelope ?g)
      \<and> (0::int) \<le> 950 \<and> 950 < int (height s2_size) \<and> (0::int) \<le> 52 \<and> 52 < int (width s2_size)
      \<and> of_int 52 < fst (apply_affine (inverse_affine s2_tile) (500505, 9930495))
      \<and> fst (apply_affine (inverse_affine s2_tile) (500505, 9930495)) < of_int 52 + 1
      \<and> of_int 950 < snd (apply_affine (inverse_affine s2_tile) (500505, 9930495))
      \<and> snd (apply_affine (inverse_affine s2_tile) (500505, 9930495)) < of_int 950 + 1"
    unfolding px by (simp add: envelope_def s2_size_def)
  have "\<forall>x y i j.
         xmin (envelope ?g) \<le> x \<and> x \<le> xmax (envelope ?g)
         \<and> ymin (envelope ?g) \<le> y \<and> y \<le> ymax (envelope ?g)
         \<and> 0 \<le> i \<and> i < int (height s2_size) \<and> 0 \<le> j \<and> j < int (width s2_size)
         \<and> of_int j < fst (apply_affine (inverse_affine s2_tile) (x, y))
         \<and> fst (apply_affine (inverse_affine s2_tile) (x, y)) < of_int j + 1
         \<and> of_int i < snd (apply_affine (inverse_affine s2_tile) (x, y))
         \<and> snd (apply_affine (inverse_affine s2_tile) (x, y)) < of_int i + 1
       \<longrightarrow> row_start ?w \<le> i \<and> i < row_stop ?w \<and> col_start ?w \<le> j \<and> j < col_stop ?w"
    using cover by blast
  then have "row_start ?w \<le> 950 \<and> 950 < row_stop ?w \<and> col_start ?w \<le> 52 \<and> 52 < col_stop ?w"
    using cell by blast
  then have "(900::int) \<le> 950 \<and> (950::int) < 1000 \<and> (2::int) \<le> 52 \<and> (52::int) < 102"
    by simp
  then show ?thesis
    using r exact px by blast
qed

text \<open>
  Claim C1 as stated fails where the envelope reaches beyond the raster: an
  envelope whose western edge lies half a pixel outside the tile gets a window
  that starts at column 0, which is not the floor \<open>- 1\<close> of its lower column
  coordinate \<open>- 1 / 2\<close>, and the envelope's corner at that column is not inside
  the window.
\<close>

theorem resolve_window_covering_counterexample:
  "resolve_window (Box (499975, 9930000) (501000, 9931000)) s2_tile s2_size
     = Inr \<lparr>row_start = 900, row_stop = 1000, col_start = 0, col_stop = 102\<rparr>
   \<and> col_start \<lparr>row_start = 900, row_stop = 1000, col_start = 0, col_stop = 102\<rparr>
       \<noteq> \<lfloor>col_lo (to_pixel_extent s2_tile (envelope (Box (499975, 9930000) (501000, 9931000))))\<rfloor>
   \<and> xmin (envelope (Box (499975, 9930000) (501000, 9931000))) \<le> 499975
   \<and> 499975 \<le> xmax (envelope (Box (499975, 9930000) (501000, 9931000)))
   \<and> ymin (envelope (Box (499975, 9930000) (501000, 9931000))) \<le> 9930000
   \<and> 9930000 \<le> ymax (envelope (Box (499975, 9930000) (501000, 9931000)))
   \<and> \<not> of_int (col_start \<lparr>row_start = 900, row_stop = 1000, col_start = 0, col_stop = 102\<rparr>)
         \<le> fst (apply_affine (inverse_affine s2_tile) (499975, 9930000))"
proof -
  have lo: "col_lo (to_pixel_extent s2_tile (envelope (Box (499975, 9930000) (501000, 9931000))))
      = - 1 / 2"
    by (simp add: resolve_defs s2_tile_def)
  have "\<lfloor>- 1 / 2 :: rat\<rfloor> = - 1"
    by (simp add: floor_eq_iff)
  then have "col_start \<lparr>row_start = 900, row_stop = 1000, col_start = 0, col_stop = 102\<rparr>
       \<noteq> \<lfloor>col_lo (to_pixel_extent s2_tile (envelope (Box (499975, 9930000) (501000, 9931000))))\<rfloor>"
    unfolding lo by simp
  then show ?thesis
    by (simp add: resolve_defs s2_tile_def s2_size_def)
qed

lemma axis_round_trip:
  fixes k s u v :: rat
  assumes "k \<noteq> 0" and "u \<le> v"
  shows "min (min (k * u + s) (k * v + s) / k - s / k) (max (k * u + s) (k * v + s) / k - s / k) = u
       \<and> max (min (k * u + s) (k * v + s) / k - s / k) (max (k * u + s) (k * v + s) / k - s / k) = v"
proof -
  have inv: "(k * z + s) / k - s / k = z" for z
    using assms(1) by (simp add: field_simps)
  show ?thesis
  proof (cases "0 < k")
    case True
    then have "k * u \<le> k * v"
      using assms(2) by simp
    then have "min (k * u + s) (k * v + s) = k * u + s" "max (k * u + s) (k * v + s) = k * v + s"
      by simp_all
    then show ?thesis
      using assms(2) by (simp add: inv)
  next
    case False
    then have "k < 0"
      using assms(1) by simp
    then have "k * v \<le> k * u"
      using assms(2) by (simp add: mult_left_mono_neg)
    then have "min (k * u + s) (k * v + s) = k * v + s" "max (k * u + s) (k * v + s) = k * u + s"
      by simp_all
    then show ?thesis
      using assms(2) by (simp add: inv)
  qed
qed

lemma envelope_window_envelope:
  assumes "x_row t = 0" and "y_col t = 0"
  shows "envelope (window_envelope t w) =
     \<lparr>xmin = min (x_col t * of_int (col_start w) + x_off t) (x_col t * of_int (col_stop w) + x_off t),
      ymin = min (y_row t * of_int (row_start w) + y_off t) (y_row t * of_int (row_stop w) + y_off t),
      xmax = max (x_col t * of_int (col_start w) + x_off t) (x_col t * of_int (col_stop w) + x_off t),
      ymax = max (y_row t * of_int (row_start w) + y_off t) (y_row t * of_int (row_stop w) + y_off t)\<rparr>"
  using assms
  by (simp add: window_envelope_def envelope_def apply_affine_def Let_def)
    (simp add: min.commute max.commute)

lemma axis_extent:
  assumes "x_row t = 0" and "y_col t = 0" and "x_col t \<noteq> 0" and "y_row t \<noteq> 0"
  shows "to_pixel_extent t env =
     \<lparr>col_lo = min (xmin env / x_col t - x_off t / x_col t) (xmax env / x_col t - x_off t / x_col t),
      row_lo = min (ymin env / y_row t - y_off t / y_row t) (ymax env / y_row t - y_off t / y_row t),
      col_hi = max (xmin env / x_col t - x_off t / x_col t) (xmax env / x_col t - x_off t / x_col t),
      row_hi = max (ymin env / y_row t - y_off t / y_row t) (ymax env / y_row t - y_off t / y_row t)\<rparr>"
  using assms
  by (simp add: to_pixel_extent_def corners_def apply_affine_def inverse_affine_def det_def Let_def
      min.commute max.commute)

text \<open>
  Claim C8, as amended. For a raster transform without rotation or shear (and
  invertible: both pixel sizes non-zero), \<^verbatim>\<open>resolve_window\<close> is idempotent: for
  every window it produces, resolving the window's CRS envelope against the same
  transform and size yields the window again.
\<close>

theorem resolve_window_idempotent_axis_aligned:
  assumes "x_row t = 0" and "y_col t = 0" and "x_col t \<noteq> 0" and "y_row t \<noteq> 0"
    and "resolve_window g t sz = Inr w"
  shows "resolve_window (window_envelope t w) t sz = Inr w"
proof -
  have v: "valid_window sz w"
    using assms(5) by (rule resolve_window_valid)
  then have rows: "0 \<le> row_start w" "row_start w < row_stop w" "row_stop w \<le> int (height sz)"
    and cols: "0 \<le> col_start w" "col_start w < col_stop w" "col_stop w \<le> int (width sz)"
    by (simp_all add: valid_window_def)
  have cu: "(of_int (col_start w) :: rat) \<le> of_int (col_stop w)"
    and ru: "(of_int (row_start w) :: rat) \<le> of_int (row_stop w)"
    using rows cols by simp_all
  note cx = axis_round_trip [OF assms(3) cu, of "x_off t"]
  note ry = axis_round_trip [OF assms(4) ru, of "y_off t"]
  have ext: "to_pixel_extent t (envelope (window_envelope t w)) =
      \<lparr>col_lo = of_int (col_start w), row_lo = of_int (row_start w),
       col_hi = of_int (col_stop w), row_hi = of_int (row_stop w)\<rparr>"
    unfolding axis_extent [OF assms(1-4)] envelope_window_envelope [OF assms(1,2)]
    using cx ry by simp
  have "round_outward (to_pixel_extent t (envelope (window_envelope t w))) = w"
    unfolding ext by (simp add: round_outward_def)
  moreover have "clamp_window sz w = w"
    using rows cols by (simp add: clamp_window_def clamp_inside)
  moreover have "\<not> empty_window w"
    using rows cols by (simp add: empty_window_def)
  ultimately show ?thesis
    by (simp add: resolve_window_cases)
qed

theorem resolve_window_idempotent_axis_aligned_witness:
  "x_row s2_tile = 0 \<and> y_col s2_tile = 0 \<and> x_col s2_tile \<noteq> 0 \<and> y_row s2_tile \<noteq> 0
   \<and> resolve_window (Box (500000, 9930000) (501000, 9931000)) s2_tile s2_size
       = Inr \<lparr>row_start = 900, row_stop = 1000, col_start = 2, col_stop = 102\<rparr>
   \<and> resolve_window
        (window_envelope s2_tile \<lparr>row_start = 900, row_stop = 1000, col_start = 2, col_stop = 102\<rparr>)
        s2_tile s2_size
       = Inr \<lparr>row_start = 900, row_stop = 1000, col_start = 2, col_stop = 102\<rparr>"
proof -
  have axis: "x_row s2_tile = 0" "y_col s2_tile = 0" "x_col s2_tile \<noteq> 0" "y_row s2_tile \<noteq> 0"
    by (simp_all add: s2_tile_def)
  have r: "resolve_window (Box (500000, 9930000) (501000, 9931000)) s2_tile s2_size
      = Inr \<lparr>row_start = 900, row_stop = 1000, col_start = 2, col_stop = 102\<rparr>"
    by (simp add: resolve_defs s2_tile_def s2_size_def)
  show ?thesis
    using axis r resolve_window_idempotent_axis_aligned [OF axis r] by blast
qed

text \<open>
  Claim C8 as stated fails for a rotated raster: with the transform rotated by 45
  degrees, the window of one pixel resolved for a point has a CRS envelope whose
  own window is three pixels wide and high.
\<close>

theorem resolve_window_idempotent_counterexample:
  "resolve_window (Point (3, 0)) rotated \<lparr>height = 3, width = 3\<rparr>
     = Inr \<lparr>row_start = 1, row_stop = 2, col_start = 1, col_stop = 2\<rparr>
   \<and> resolve_window
        (window_envelope rotated \<lparr>row_start = 1, row_stop = 2, col_start = 1, col_stop = 2\<rparr>)
        rotated \<lparr>height = 3, width = 3\<rparr>
     = Inr \<lparr>row_start = 0, row_stop = 3, col_start = 0, col_stop = 3\<rparr>
   \<and> \<lparr>row_start = 0, row_stop = 3, col_start = 0, col_stop = 3\<rparr>
     \<noteq> \<lparr>row_start = 1, row_stop = 2, col_start = 1, col_stop = 2\<rparr>"
proof -
  have "\<lfloor>3 / 2 :: rat\<rfloor> = 1" "\<lceil>3 / 2 :: rat\<rceil> = 2"
    "\<lfloor>1 / 2 :: rat\<rfloor> = 0" "\<lceil>5 / 2 :: rat\<rceil> = 3"
    by (simp_all add: floor_eq_iff ceiling_eq_iff)
  then show ?thesis
    by (simp add: resolve_defs window_envelope_def rotated_def)
qed

section \<open>Properties of the windowed reader\<close>

lemma length_slice:
  "0 \<le> start \<Longrightarrow> start \<le> stop \<Longrightarrow> stop \<le> int (length xs) \<Longrightarrow>
     length (slice start stop xs) = nat (stop - start)"
  by (simp add: slice_def)

lemma set_slice_subset: "set (slice start stop xs) \<subseteq> set xs"
  unfolding slice_def by (meson set_take_subset set_drop_subset subset_trans)

lemma apply_window_transform:
  "apply_affine (window_transform t w) (col, row)
     = apply_affine t (col + of_int (col_start w), row + of_int (row_start w))"
  by (simp add: apply_affine_def window_transform_def algebra_simps)

text \<open>
  Claim C5. For every raster whose stored grid can be read and is intact, and
  every valid pixel window within its grid, \<^verbatim>\<open>read\<close> returns an array of exactly
  \<open>bands\<close> bands, each of \<open>row_stop - row_start\<close> rows of \<open>col_stop - col_start\<close>
  values, paired with the transform of the sub-window: pixel (col, row) of the
  array lies where pixel (col + col_start, row + row_start) of the raster lies.
\<close>

theorem read_shape_is_window_shape:
  assumes "stored r = Some grid" and "intact r grid" and "valid_window (shape r) w"
  shows "\<exists>ar tr. read r w fill_invalid = Inr (ar, tr)
           \<and> length ar = bands r
           \<and> (\<forall>band\<in>set ar. length band = nat (row_stop w - row_start w)
                \<and> (\<forall>row\<in>set band. length row = nat (col_stop w - col_start w)))
           \<and> (\<forall>col row. apply_affine tr (col, row)
                 = apply_affine (transform r) (col + of_int (col_start w), row + of_int (row_start w)))"
proof -
  let ?cut_row = "\<lambda>row. map (fill fill_invalid (nodata r)) (slice (col_start w) (col_stop w) row)"
  let ?cut_band = "\<lambda>band. map ?cut_row (slice (row_start w) (row_stop w) band)"
  let ?ar = "map ?cut_band grid"
  let ?tr = "window_transform (transform r) w"
  have res: "read r w fill_invalid = Inr (?ar, ?tr)"
    using assms by (simp add: read_def)
  have n: "length ?ar = bands r"
    using assms(2) by (simp add: intact_def)
  have rows: "0 \<le> row_start w" "row_start w \<le> row_stop w" "row_stop w \<le> int (height (shape r))"
    and cols: "0 \<le> col_start w" "col_start w \<le> col_stop w" "col_stop w \<le> int (width (shape r))"
    using assms(3) by (simp_all add: valid_window_def)
  have sh: "length cut = nat (row_stop w - row_start w)
        \<and> (\<forall>row\<in>set cut. length row = nat (col_stop w - col_start w))"
    if "cut \<in> set ?ar" for cut
  proof -
    have "cut \<in> ?cut_band ` set grid"
      using that by simp
    then obtain band where band: "band \<in> set grid" and cut: "cut = ?cut_band band"
      by (rule imageE)
    have hb: "length band = height (shape r)" and wb: "\<forall>row\<in>set band. length row = width (shape r)"
      using assms(2) band by (auto simp: intact_def)
    have "length cut = nat (row_stop w - row_start w)"
      using rows hb by (simp add: cut length_slice)
    moreover have "length row' = nat (col_stop w - col_start w)" if "row' \<in> set cut" for row'
    proof -
      have "row' \<in> ?cut_row ` set (slice (row_start w) (row_stop w) band)"
        using that cut by simp
      then obtain row where row: "row \<in> set (slice (row_start w) (row_stop w) band)"
        and row': "row' = ?cut_row row"
        by (rule imageE)
      have "row \<in> set band"
        using row by (rule subsetD [OF set_slice_subset])
      then have "length row = width (shape r)"
        using wb by blast
      then show ?thesis
        using cols by (simp add: row' length_slice)
    qed
    ultimately show ?thesis
      by blast
  qed
  have "\<forall>col row. apply_affine ?tr (col, row)
      = apply_affine (transform r) (col + of_int (col_start w), row + of_int (row_start w))"
    by (simp add: apply_window_transform)
  then show ?thesis
    using res n sh by blast
qed

theorem read_shape_is_window_shape_witness:
  "stored small_ref = Some [[[1, 2, 3, 4], [5, 6, 7, 8], [9, 10, 11, 12]],
                            [[0, 1, 0, 1], [1, 0, 1, 0], [0, 0, 1, 1]]]
   \<and> intact small_ref [[[1, 2, 3, 4], [5, 6, 7, 8], [9, 10, 11, 12]],
                        [[0, 1, 0, 1], [1, 0, 1, 0], [0, 0, 1, 1]]]
   \<and> valid_window (shape small_ref) \<lparr>row_start = 1, row_stop = 3, col_start = 1, col_stop = 4\<rparr>
   \<and> (\<exists>ar tr. read small_ref \<lparr>row_start = 1, row_stop = 3, col_start = 1, col_stop = 4\<rparr> False
                  = Inr (ar, tr)
         \<and> length ar = 2
         \<and> (\<forall>band\<in>set ar. length band = 2 \<and> (\<forall>row\<in>set band. length row = 3)))
   \<and> read small_ref \<lparr>row_start = 1, row_stop = 3, col_start = 1, col_stop = 4\<rparr> False
       = Inr ([[[6, 7, 8], [10, 11, 12]], [[0, 1, 0], [0, 1, 1]]],
              \<lparr>x_col = 10, x_row = 0, x_off = 499990, y_col = 0, y_row = - 10, y_off = 9939990\<rparr>)"
proof -
  let ?grid = "[[[1, 2, 3, 4], [5, 6, 7, 8], [9, 10, 11, 12]],
                [[0, 1, 0, 1], [1, 0, 1, 0], [0, 0, 1, 1 :: rat]]]"
  let ?w = "\<lparr>row_start = 1, row_stop = 3, col_start = 1, col_stop = 4\<rparr>"
  have s: "stored small_ref = Some ?grid"
    by (simp add: small_ref_def)
  have i: "intact small_ref ?grid"
    by (simp add: intact_def small_ref_def)
  have v: "valid_window (shape small_ref) ?w"
    by (simp add: valid_window_def small_ref_def)
  have "\<exists>ar tr. read small_ref ?w False = Inr (ar, tr)
         \<and> length ar = bands small_ref
         \<and> (\<forall>band\<in>set ar. length band = nat (row_stop ?w - row_start ?w)
              \<and> (\<forall>row\<in>set band. length row = nat (col_stop ?w - col_start ?w)))"
    using read_shape_is_window_shape [OF s i v, of False] by blast
  then have sh: "\<exists>ar tr. read small_ref ?w False = Inr (ar, tr)
         \<and> length ar = 2
         \<and> (\<forall>band\<in>set ar. length band = 2 \<and> (\<forall>row\<in>set band. length row = 3))"
    by (simp add: small_ref_def)
  have "read small_ref ?w False
       = Inr ([[[6, 7, 8], [10, 11, 12]], [[0, 1, 0], [0, 1, 1]]],
              \<lparr>x_col = 10, x_row = 0, x_off = 499990, y_col = 0, y_row = - 10, y_off = 9939990\<rparr>)"
    by (simp add: read_def small_ref_def intact_def valid_window_def slice_def fill_def
        window_transform_def s2_tile_def numeral_2_eq_2 numeral_3_eq_3)
  then show ?thesis
    using s i v sh by blast
qed

end
